theory Spec2Isabelle
  imports Main
begin

section \<open>Data model of the authentication provider\<close>

text \<open>
  The provider of \<^verbatim>\<open>src/lib/auth/AuthProvider.tsx\<close> keeps two pieces of React state,
  \<^verbatim>\<open>tokens\<close> and \<^verbatim>\<open>currentUser\<close>, each of type \<^verbatim>\<open>T | null | undefined\<close>.
  The three cases are kept apart: \<open>Undefined\<close> is the construction-time value,
  \<open>Null\<close> is what \<^verbatim>\<open>clearAuthState\<close> writes.
\<close>

datatype 'a nullable = Undefined | Null | Val 'a

record TokensData =
  access :: string
  accessExpiresAt :: string
  refresh :: string
  refreshExpiresAt :: string

record UserData =
  userId :: string
  name :: string
  email :: string

text \<open>
  The fetcher of \<^verbatim>\<open>@/lib/api\<close> answers a request with \<^verbatim>\<open>{ ok: true, data }\<close>, with
  \<^verbatim>\<open>{ ok: false, data: { message } }\<close>, or its promise rejects. The bodies of the two
  token endpoints and of the identity endpoint are the fields the provider reads.
\<close>

datatype 'a response = Ok 'a | NotOk string | Thrown string

record AuthData =
  data_accessToken :: string
  data_accessTokenExpiresAt :: string
  data_refreshToken :: string
  data_refreshTokenExpiresAt :: string

record UserInfoData =
  data_userId :: string
  data_displayName :: string
  data_email :: "string option"

record credentials =
  cred_email :: string
  cred_password :: string

datatype request =
    PostLogin credentials
  | PostRefresh string
  | GetUsersMe string

text \<open>Every \<^verbatim>\<open>throw\<close> of the provider is a JavaScript \<^verbatim>\<open>Error\<close> with a message.\<close>

datatype error = Error string

text \<open>
  The \<^verbatim>\<open>initialTokens\<close> prop: absent (\<^verbatim>\<open>undefined\<close> or \<^verbatim>\<open>null\<close>), a value or promise that
  resolves to a token pair or to \<^verbatim>\<open>null\<close>, or a promise that rejects.
\<close>

datatype initial_tokens = Absent | Resolves "TokensData option" | Rejects

text \<open>
  The state one provider instance owns. Besides the two exposed React states it holds
  the timer ref, the host's table of pending timeouts (handle and delay in ms) with the
  host's handle counter, the requests issued through the fetcher, and the arguments
  \<^verbatim>\<open>onAuthChange\<close> has been called with (oldest first).
\<close>

record session =
  tokens :: "TokensData nullable"
  currentUser :: "UserData nullable"
  refreshTimerRef :: "nat option"
  timers :: "(nat \<times> int) list"
  lastHandle :: nat
  requests :: "request list"
  authChanges :: "TokensData option list"

definition initialSession :: session where
  "initialSession =
     \<lparr>tokens = Undefined, currentUser = Undefined, refreshTimerRef = None,
      timers = [], lastHandle = 0, requests = [], authChanges = []\<rparr>"

definition REFRESH_THRESHOLD_MS :: int where
  "REFRESH_THRESHOLD_MS = 5 * 60 * 1000"

definition MAX_TIMEOUT :: int where
  "MAX_TIMEOUT = 2147483647"

section \<open>Operations\<close>

text \<open>
  State setters called in one synchronous stretch of code are committed together
  (React batches them), so each definition below that runs without an \<^verbatim>\<open>await\<close> is one
  atomic update of the session. A callback closes over the \<^verbatim>\<open>tokens\<close> and
  \<^verbatim>\<open>currentUser\<close> of the render that created it; that captured value is an explicit
  argument. The optional prop \<^verbatim>\<open>onAuthChange\<close> is a flag (was a callback passed) and
  the list \<open>authChanges\<close> of the calls it received.
\<close>

definition clearAuthState :: "session \<Rightarrow> session" where
  "clearAuthState s = s\<lparr>tokens := Null, currentUser := Null\<rparr>"

definition notifyAuthChange :: "bool \<Rightarrow> TokensData option \<Rightarrow> session \<Rightarrow> session" where
  "notifyAuthChange onAuthChange payload s =
     (if onAuthChange then s\<lparr>authChanges := authChanges s @ [payload]\<rparr> else s)"

definition fetcher :: "request \<Rightarrow> session \<Rightarrow> session" where
  "fetcher r s = s\<lparr>requests := requests s @ [r]\<rparr>"

definition tokensOfResponse :: "AuthData \<Rightarrow> TokensData" where
  "tokensOfResponse d =
     \<lparr>access = data_accessToken d,
      accessExpiresAt = data_accessTokenExpiresAt d,
      refresh = data_refreshToken d,
      refreshExpiresAt = data_refreshTokenExpiresAt d\<rparr>"

text \<open>\<^verbatim>\<open>!tokens?.refresh\<close>: no pair, or a pair whose refresh field is the empty string.\<close>

fun holdsRefresh :: "TokensData nullable \<Rightarrow> bool" where
  "holdsRefresh (Val tk) = (refresh tk \<noteq> [])"
| "holdsRefresh _ = False"

text \<open>
  \<^verbatim>\<open>refreshToken\<close> (lines 60-103), run to completion against the answer \<open>resp\<close> of the
  backend. The first argument of the result is the promise's boolean.
\<close>

fun refreshToken ::
  "bool \<Rightarrow> TokensData nullable \<Rightarrow> AuthData response \<Rightarrow> session \<Rightarrow> bool \<times> session" where
  "refreshToken onAuthChange (Val tk) resp s =
     (if refresh tk = [] then (False, s)
      else
        let s1 = fetcher (PostRefresh (refresh tk)) s in
        (case resp of
           Ok d \<Rightarrow>
             (True, notifyAuthChange onAuthChange (Some (tokensOfResponse d))
                      (s1\<lparr>tokens := Val (tokensOfResponse d)\<rparr>))
         | NotOk m \<Rightarrow> (False, notifyAuthChange onAuthChange None (clearAuthState s1))
         | Thrown e \<Rightarrow> (False, notifyAuthChange onAuthChange None (clearAuthState s1))))"
| "refreshToken onAuthChange Null resp s = (False, s)"
| "refreshToken onAuthChange Undefined resp s = (False, s)"

text \<open>The host's timer table: \<^verbatim>\<open>setTimeout\<close> hands out a fresh positive handle.\<close>

definition setTimeout :: "int \<Rightarrow> session \<Rightarrow> nat \<times> session" where
  "setTimeout delay s =
     (Suc (lastHandle s),
      s\<lparr>timers := timers s @ [(Suc (lastHandle s), delay)], lastHandle := Suc (lastHandle s)\<rparr>)"

definition clearTimeout :: "nat \<Rightarrow> session \<Rightarrow> session" where
  "clearTimeout h s = s\<lparr>timers := filter (\<lambda>t. fst t \<noteq> h) (timers s)\<rparr>"

text \<open>Lines 106-109: a truthy ref is cleared and reset (the handle \<open>0\<close> would be falsy).\<close>

definition clearRefreshTimer :: "session \<Rightarrow> session" where
  "clearRefreshTimer s =
     (case refreshTimerRef s of
        None \<Rightarrow> s
      | Some h \<Rightarrow> if h = 0 then s else (clearTimeout h s)\<lparr>refreshTimerRef := None\<rparr>)"

text \<open>
  \<^verbatim>\<open>scheduleTokenRefresh\<close> (lines 105-136). \<open>getTime\<close> is the host's
  \<^verbatim>\<open>new Date(s).getTime()\<close>: the time in ms, or \<open>None\<close> for \<^verbatim>\<open>NaN\<close> (every comparison
  with \<^verbatim>\<open>NaN\<close> is false, so neither branch is taken). \<open>now\<close> is \<^verbatim>\<open>Date.now()\<close>. Both
  are whole numbers of milliseconds, and the delay handed to \<^verbatim>\<open>setTimeout\<close> lies between
  0 and \<open>MAX_TIMEOUT\<close>, so the arithmetic is that of the integers. The boolean says
  whether \<^verbatim>\<open>refreshToken()\<close> was called on the spot.
\<close>

fun scheduleTokenRefresh ::
  "(string \<Rightarrow> int option) \<Rightarrow> int \<Rightarrow> TokensData nullable \<Rightarrow> session \<Rightarrow> bool \<times> session" where
  "scheduleTokenRefresh getTime now (Val tk) s =
     (let s1 = clearRefreshTimer s in
      if accessExpiresAt tk = [] then (False, s1)
      else
        (case getTime (accessExpiresAt tk) of
           None \<Rightarrow> (False, s1)
         | Some expiresAt \<Rightarrow>
             let timeUntilExpiry = expiresAt - now in
             if timeUntilExpiry \<le> 0 then (True, s1)
             else if timeUntilExpiry < MAX_TIMEOUT then
               let refreshTime = max 0 (timeUntilExpiry - REFRESH_THRESHOLD_MS);
                   (h, s2) = setTimeout refreshTime s1
               in (False, s2\<lparr>refreshTimerRef := Some h\<rparr>)
             else (False, s1)))"
| "scheduleTokenRefresh getTime now Null s = (False, clearRefreshTimer s)"
| "scheduleTokenRefresh getTime now Undefined s = (False, clearRefreshTimer s)"

text \<open>The effect of lines 146-150, run for a render whose tokens are \<open>tk\<close>.\<close>

fun tokensEffect ::
  "(string \<Rightarrow> int option) \<Rightarrow> int \<Rightarrow> TokensData nullable \<Rightarrow> session \<Rightarrow> bool \<times> session" where
  "tokensEffect getTime now (Val tk) s = scheduleTokenRefresh getTime now (Val tk) s"
| "tokensEffect getTime now Null s = (False, s)"
| "tokensEffect getTime now Undefined s = (False, s)"

text \<open>The cleanup of lines 138-144, run when the provider unmounts.\<close>

definition unmount :: "session \<Rightarrow> session" where
  "unmount s = (case refreshTimerRef s of None \<Rightarrow> s | Some h \<Rightarrow> clearTimeout h s)"

text \<open>The host runs the callback of a pending timeout and drops it from its table.\<close>

definition timerFires :: "nat \<Rightarrow> session \<Rightarrow> session" where
  "timerFires h s = s\<lparr>timers := filter (\<lambda>t. fst t \<noteq> h) (timers s)\<rparr>"

text \<open>
  \<^verbatim>\<open>loadUserInfo\<close> (lines 152-180): the request it issues, and what it returns for each
  answer (it never throws).
\<close>

fun userDataOf :: "UserInfoData response \<Rightarrow> UserData option" where
  "userDataOf (Ok d) =
     Some \<lparr>userId = data_userId d, name = data_displayName d,
           email = (case data_email d of None \<Rightarrow> [] | Some e \<Rightarrow> e)\<rparr>"
| "userDataOf (NotOk m) = None"
| "userDataOf (Thrown e) = None"

definition loadUserInfo ::
  "string \<Rightarrow> UserInfoData response \<Rightarrow> session \<Rightarrow> UserData option \<times> session" where
  "loadUserInfo accessToken resp s = (userDataOf resp, fetcher (GetUsersMe accessToken) s)"

text \<open>
  \<^verbatim>\<open>loadInitialTokens\<close> (lines 182-210) in its two stretches: up to
  \<^verbatim>\<open>await loadUserInfo(...)\<close>, where it either has settled (\<open>None\<close>) or is suspended on
  the identity request for a pair, and from the answer on.
\<close>

fun loadInitialTokens_begin :: "initial_tokens \<Rightarrow> session \<Rightarrow> TokensData option \<times> session" where
  "loadInitialTokens_begin Absent s = (None, clearAuthState s)"
| "loadInitialTokens_begin (Resolves None) s = (None, clearAuthState s)"
| "loadInitialTokens_begin (Resolves (Some resolvedTokens)) s =
     (Some resolvedTokens,
      fetcher (GetUsersMe (access resolvedTokens)) (s\<lparr>tokens := Val resolvedTokens\<rparr>))"
| "loadInitialTokens_begin Rejects s = (None, clearAuthState s)"

fun loadInitialTokens_resume :: "UserInfoData response \<Rightarrow> session \<Rightarrow> session" where
  "loadInitialTokens_resume resp s =
     (case userDataOf resp of
        None \<Rightarrow> clearAuthState s
      | Some userData \<Rightarrow> s\<lparr>currentUser := Val userData\<rparr>)"

definition loadInitialTokens ::
  "initial_tokens \<Rightarrow> UserInfoData response \<Rightarrow> session \<Rightarrow> session" where
  "loadInitialTokens initialTokens resp s =
     (case loadInitialTokens_begin initialTokens s of
        (None, s1) \<Rightarrow> s1
      | (Some resolvedTokens, s1) \<Rightarrow> loadInitialTokens_resume resp s1)"

text \<open>
  \<^verbatim>\<open>login\<close> (lines 218-259), run to completion. The guard reads the captured
  \<^verbatim>\<open>currentUser\<close>; every \<^verbatim>\<open>throw\<close> inside the \<^verbatim>\<open>try\<close>, the guard's included, reaches the
  \<^verbatim>\<open>catch\<close>, which clears the state and rethrows.
\<close>

fun login ::
  "bool \<Rightarrow> UserData nullable \<Rightarrow> credentials \<Rightarrow> AuthData response \<Rightarrow> UserInfoData response \<Rightarrow>
   session \<Rightarrow> (error + unit) \<times> session" where
  "login onAuthChange capturedUser creds loginResponse userResponse s =
     (if capturedUser \<noteq> Null then (Inl (Error ''User is already logged in''), clearAuthState s)
      else
        let s1 = fetcher (PostLogin creds) s in
        (case loginResponse of
           Thrown e \<Rightarrow> (Inl (Error e), clearAuthState s1)
         | NotOk m \<Rightarrow> (Inl (Error m), clearAuthState s1)
         | Ok d \<Rightarrow>
             let newTokens = tokensOfResponse d;
                 (userData, s2) = loadUserInfo (access newTokens) userResponse s1
             in (case userData of
                   None \<Rightarrow> (Inl (Error ''Error fetching user info''), clearAuthState s2)
                 | Some u \<Rightarrow>
                     (Inr (), notifyAuthChange onAuthChange (Some newTokens)
                                (s2\<lparr>tokens := Val newTokens, currentUser := Val u\<rparr>)))))"

text \<open>\<^verbatim>\<open>logout\<close> (lines 261-278); its \<^verbatim>\<open>catch\<close> only logs and rethrows.\<close>

fun logout :: "bool \<Rightarrow> UserData nullable \<Rightarrow> session \<Rightarrow> (error + unit) \<times> session" where
  "logout onAuthChange capturedUser s =
     (if capturedUser = Null then (Inl (Error ''No user is logged in''), s)
      else (Inr (), notifyAuthChange onAuthChange None (clearAuthState s)))"

text \<open>
  The context value of lines 280-288: what a consumer of \<^verbatim>\<open>useAuth\<close> sees for the
  render of session \<open>s\<close>. Its \<^verbatim>\<open>login\<close> and \<^verbatim>\<open>logout\<close> are the callbacks of that render.
\<close>

record auth =
  auth_currentUser :: "UserData nullable"
  auth_tokens :: "TokensData nullable"
  auth_login :: "credentials \<Rightarrow> AuthData response \<Rightarrow> UserInfoData response \<Rightarrow>
                 session \<Rightarrow> (error + unit) \<times> session"
  auth_logout :: "session \<Rightarrow> (error + unit) \<times> session"

definition authContextValue :: "bool \<Rightarrow> session \<Rightarrow> auth" where
  "authContextValue onAuthChange s =
     \<lparr>auth_currentUser = currentUser s,
      auth_tokens = tokens s,
      auth_login = login onAuthChange (currentUser s),
      auth_logout = logout onAuthChange (currentUser s)\<rparr>"

text \<open>The three shapes of the exposed pair that the specification names.\<close>

fun consistent :: "TokensData nullable \<Rightarrow> UserData nullable \<Rightarrow> bool" where
  "consistent Undefined Undefined = True"
| "consistent Null Null = True"
| "consistent (Val t) (Val u) = True"
| "consistent _ _ = False"

section \<open>Histories of one provider\<close>

text \<open>
  What can happen to a mounted provider: the initial load starts or resumes, a consumer
  calls \<^verbatim>\<open>login\<close> or \<^verbatim>\<open>logout\<close> of the current render, the tokens effect runs at some
  time for some render's tokens, a pending timeout fires, a refresh (started by the
  effect or by a timeout, with the tokens it captured) settles, the provider unmounts.
  \<^verbatim>\<open>login\<close> and the refresh are taken whole; they never touch the timers, so the timer
  states of a history do not depend on how their stretches interleave with other events.
  Any list of events is a history; the real ones are among them.
\<close>

datatype event =
    InitialLoadBegins initial_tokens
  | InitialLoadResumes "UserInfoData response"
  | LoginCalled credentials "AuthData response" "UserInfoData response"
  | LogoutCalled
  | EffectRuns int "TokensData nullable"
  | TimerFired nat
  | RefreshSettles "TokensData nullable" "AuthData response"
  | Unmounted

fun step :: "bool \<Rightarrow> (string \<Rightarrow> int option) \<Rightarrow> event \<Rightarrow> session \<Rightarrow> session" where
  "step onAuthChange getTime (InitialLoadBegins initialTokens) s =
     snd (loadInitialTokens_begin initialTokens s)"
| "step onAuthChange getTime (InitialLoadResumes resp) s = loadInitialTokens_resume resp s"
| "step onAuthChange getTime (LoginCalled creds loginResponse userResponse) s =
     snd (auth_login (authContextValue onAuthChange s) creds loginResponse userResponse s)"
| "step onAuthChange getTime LogoutCalled s =
     snd (auth_logout (authContextValue onAuthChange s) s)"
| "step onAuthChange getTime (EffectRuns now tk) s = snd (tokensEffect getTime now tk s)"
| "step onAuthChange getTime (TimerFired h) s = timerFires h s"
| "step onAuthChange getTime (RefreshSettles captured resp) s =
     snd (refreshToken onAuthChange captured resp s)"
| "step onAuthChange getTime Unmounted s = unmount s"

fun run :: "bool \<Rightarrow> (string \<Rightarrow> int option) \<Rightarrow> event list \<Rightarrow> session \<Rightarrow> session" where
  "run onAuthChange getTime [] s = s"
| "run onAuthChange getTime (e # es) s = run onAuthChange getTime es (step onAuthChange getTime e s)"

text \<open>
  The timer discipline: the host holds no timeout of this provider, or exactly the one
  whose (positive) handle the ref holds.
\<close>

definition timerInv :: "session \<Rightarrow> bool" where
  "timerInv s =
     (case timers s of
        [] \<Rightarrow> True
      | [t] \<Rightarrow> refreshTimerRef s = Some (fst t) \<and> 0 < fst t
      | _ \<Rightarrow> False)"

section \<open>Sample data\<close>

definition sampleTokens :: TokensData where
  "sampleTokens =
     \<lparr>access = ''access-1'', accessExpiresAt = ''2124-01-01T00:00Z'',
      refresh = ''refresh-1'', refreshExpiresAt = ''2124-01-01T00:00Z''\<rparr>"

definition sampleAuthData :: AuthData where
  "sampleAuthData =
     \<lparr>data_accessToken = ''access-2'', data_accessTokenExpiresAt = ''2124-02-01T00:00Z'',
      data_refreshToken = ''refresh-2'', data_refreshTokenExpiresAt = ''2124-02-01T00:00Z''\<rparr>"

definition sampleUserInfo :: UserInfoData where
  "sampleUserInfo =
     \<lparr>data_userId = ''c0ed36c0'', data_displayName = ''Alice'',
      data_email = Some ''alice@playtomic.io''\<rparr>"

definition sampleUser :: UserData where
  "sampleUser = \<lparr>userId = ''c0ed36c0'', name = ''Alice'', email = ''alice@playtomic.io''\<rparr>"

definition sampleCredentials :: credentials where
  "sampleCredentials =
     \<lparr>cred_email = ''alice@playtomic.io'', cred_password = ''MySuperSecurePassword''\<rparr>"

definition authenticatedSession :: session where
  "authenticatedSession = initialSession\<lparr>tokens := Val sampleTokens, currentUser := Val sampleUser\<rparr>"

section \<open>Basic facts\<close>

lemma clearAuthState_fields [simp]:
  "tokens (clearAuthState s) = Null"
  "currentUser (clearAuthState s) = Null"
  "timers (clearAuthState s) = timers s"
  "refreshTimerRef (clearAuthState s) = refreshTimerRef s"
  "lastHandle (clearAuthState s) = lastHandle s"
  "requests (clearAuthState s) = requests s"
  "authChanges (clearAuthState s) = authChanges s"
  by (simp_all add: clearAuthState_def)

lemma notifyAuthChange_fields [simp]:
  "tokens (notifyAuthChange ob p s) = tokens s"
  "currentUser (notifyAuthChange ob p s) = currentUser s"
  "timers (notifyAuthChange ob p s) = timers s"
  "refreshTimerRef (notifyAuthChange ob p s) = refreshTimerRef s"
  "lastHandle (notifyAuthChange ob p s) = lastHandle s"
  "requests (notifyAuthChange ob p s) = requests s"
  "authChanges (notifyAuthChange ob p s) = authChanges s @ (if ob then [p] else [])"
  by (simp_all add: notifyAuthChange_def)

lemma fetcher_fields [simp]:
  "tokens (fetcher r s) = tokens s"
  "currentUser (fetcher r s) = currentUser s"
  "timers (fetcher r s) = timers s"
  "refreshTimerRef (fetcher r s) = refreshTimerRef s"
  "lastHandle (fetcher r s) = lastHandle s"
  "requests (fetcher r s) = requests s @ [r]"
  "authChanges (fetcher r s) = authChanges s"
  by (simp_all add: fetcher_def)

lemma clearRefreshTimer_fields [simp]:
  "tokens (clearRefreshTimer s) = tokens s"
  "currentUser (clearRefreshTimer s) = currentUser s"
  "lastHandle (clearRefreshTimer s) = lastHandle s"
  "requests (clearRefreshTimer s) = requests s"
  "authChanges (clearRefreshTimer s) = authChanges s"
  by (simp_all add: clearRefreshTimer_def clearTimeout_def split: option.splits)

lemma clearRefreshTimer_timers_subset: "set (timers (clearRefreshTimer s)) \<subseteq> set (timers s)"
  by (auto simp: clearRefreshTimer_def clearTimeout_def split: option.splits)

lemma clearRefreshTimer_inv: "timerInv s \<Longrightarrow> timers (clearRefreshTimer s) = []"
  by (auto simp: timerInv_def clearRefreshTimer_def clearTimeout_def
           split: option.splits list.splits)

section \<open>Precondition guards of login and logout\<close>

text \<open>
  Claim C2, as amended. A call of \<^verbatim>\<open>login\<close> of a render whose current user is not
  \<^verbatim>\<open>null\<close> is reported to the caller as the error "User is already logged in", with no
  request sent and no observer call; a call of \<^verbatim>\<open>logout\<close> of a render whose current
  user is \<^verbatim>\<open>null\<close> is reported as the error "No user is logged in" and leaves the whole
  session exactly as it was. (What the rejected \<^verbatim>\<open>login\<close> does to the exposed pair is
  not part of the statement.)
\<close>

theorem precondition_errors:
  "(currentUser s \<noteq> Null \<longrightarrow>
      (case auth_login (authContextValue onAuthChange s) creds loginResponse userResponse s of
         (r, s') \<Rightarrow>
           r = Inl (Error ''User is already logged in'') \<and>
           requests s' = requests s \<and> authChanges s' = authChanges s)) \<and>
   (currentUser s = Null \<longrightarrow>
      auth_logout (authContextValue onAuthChange s) s = (Inl (Error ''No user is logged in''), s))"
  by (simp add: authContextValue_def)

theorem precondition_errors_witness:
  "currentUser authenticatedSession \<noteq> Null \<and>
   fst (auth_login (authContextValue True authenticatedSession) sampleCredentials
          (Ok sampleAuthData) (Ok sampleUserInfo) authenticatedSession)
     = Inl (Error ''User is already logged in'') \<and>
   currentUser (clearAuthState authenticatedSession) = Null \<and>
   auth_logout (authContextValue True (clearAuthState authenticatedSession))
       (clearAuthState authenticatedSession)
     = (Inl (Error ''No user is logged in''), clearAuthState authenticatedSession)"
  using precondition_errors [of authenticatedSession True sampleCredentials
          "Ok sampleAuthData" "Ok sampleUserInfo"]
    precondition_errors [of "clearAuthState authenticatedSession" True]
  by (simp add: authenticatedSession_def split: prod.splits)

text \<open>
  Claim C2 as stated fails. In an authenticated session the rejected \<^verbatim>\<open>login\<close> runs the
  \<^verbatim>\<open>catch\<close> of lines 252-256 and leaves tokens and user \<^verbatim>\<open>null\<close>; and in the unresolved
  session, which is not authenticated, \<^verbatim>\<open>logout\<close> reports no error at all.
\<close>

theorem login_when_authenticated_counterexample:
  "tokens authenticatedSession = Val sampleTokens \<and>
   currentUser authenticatedSession = Val sampleUser \<and>
   fst (auth_login (authContextValue True authenticatedSession) sampleCredentials
          (Ok sampleAuthData) (Ok sampleUserInfo) authenticatedSession)
     = Inl (Error ''User is already logged in'') \<and>
   tokens (snd (auth_login (authContextValue True authenticatedSession) sampleCredentials
          (Ok sampleAuthData) (Ok sampleUserInfo) authenticatedSession)) = Null \<and>
   currentUser (snd (auth_login (authContextValue True authenticatedSession) sampleCredentials
          (Ok sampleAuthData) (Ok sampleUserInfo) authenticatedSession)) = Null \<and>
   fst (auth_logout (authContextValue True initialSession) initialSession) = Inr ()"
  by (simp add: authContextValue_def authenticatedSession_def initialSession_def)

text \<open>
  Claim C3, as amended. \<^verbatim>\<open>logout\<close> fails, with the error "No user is logged in" and
  the session untouched, exactly when the current user is \<^verbatim>\<open>null\<close> (the unauthenticated
  state). In every other state, the authenticated one and also the unresolved one, it
  succeeds: tokens and user become \<^verbatim>\<open>null\<close>, the observer (when one is registered) is
  called once with \<^verbatim>\<open>null\<close>, and no request is sent.
\<close>

theorem logout_guard_is_null_test:
  "(currentUser s = Null \<longrightarrow>
      auth_logout (authContextValue onAuthChange s) s = (Inl (Error ''No user is logged in''), s)) \<and>
   (currentUser s \<noteq> Null \<longrightarrow>
      (case auth_logout (authContextValue onAuthChange s) s of
         (r, s') \<Rightarrow>
           r = Inr () \<and> tokens s' = Null \<and> currentUser s' = Null \<and>
           authChanges s' = authChanges s @ (if onAuthChange then [None] else []) \<and>
           requests s' = requests s))"
  by (simp add: authContextValue_def)

theorem logout_guard_is_null_test_witness:
  "currentUser initialSession \<noteq> Null \<and>
   currentUser (clearAuthState initialSession) = Null \<and>
   auth_logout (authContextValue True (clearAuthState initialSession)) (clearAuthState initialSession)
     = (Inl (Error ''No user is logged in''), clearAuthState initialSession) \<and>
   fst (auth_logout (authContextValue True initialSession) initialSession) = Inr ()"
  using logout_guard_is_null_test [of "clearAuthState initialSession" True]
    logout_guard_is_null_test [of initialSession True]
  by (simp add: initialSession_def split: prod.splits)

text \<open>
  Claim C3 as stated fails in the unresolved state: the guard of line 263 compares with
  \<^verbatim>\<open>null\<close> only, so \<^verbatim>\<open>logout\<close> succeeds there and the observer is called with \<^verbatim>\<open>null\<close>.
\<close>

theorem logout_unresolved_counterexample:
  "tokens initialSession = Undefined \<and> currentUser initialSession = Undefined \<and>
   fst (auth_logout (authContextValue True initialSession) initialSession) = Inr () \<and>
   authChanges (snd (auth_logout (authContextValue True initialSession) initialSession)) = [None]"
  by (simp add: authContextValue_def initialSession_def)




section \<open>The refresh routine\<close>

text \<open>
  Claim C10. When the tokens the refresh routine holds carry no refresh token (they are
  \<^verbatim>\<open>undefined\<close>, \<^verbatim>\<open>null\<close>, or a pair with an empty refresh field), it returns
  \<^verbatim>\<open>false\<close> and the session is unchanged: no request, no change of tokens or user, no
  observer call.
\<close>

theorem refreshToken_without_refresh_token:
  "\<not> holdsRefresh captured \<Longrightarrow> refreshToken onAuthChange captured resp s = (False, s)"
  by (cases captured) simp_all

theorem refreshToken_without_refresh_token_witness:
  "\<not> holdsRefresh (Val (sampleTokens\<lparr>refresh := []\<rparr>)) \<and>
   refreshToken True (Val (sampleTokens\<lparr>refresh := []\<rparr>)) (Ok sampleAuthData) authenticatedSession
     = (False, authenticatedSession)"
  using refreshToken_without_refresh_token
    [of "Val (sampleTokens\<lparr>refresh := []\<rparr>)" True "Ok sampleAuthData" authenticatedSession]
  by simp

text \<open>
  Claim C6. When a refresh is executed with a refresh token and the backend call fails
  (a non-success answer or a rejected promise), the routine returns \<^verbatim>\<open>false\<close>, tokens
  and user are \<^verbatim>\<open>null\<close>, the observer (when one is registered) is called once with
  \<^verbatim>\<open>null\<close>, exactly one request was sent, the timer table and the timer ref are
  untouched, and the tokens effect of the render that follows neither arms a timer nor
  starts a refresh.
\<close>

theorem refresh_failure_is_terminal:
  assumes "captured = Val tk" and "refresh tk \<noteq> []" and "resp = NotOk m \<or> resp = Thrown m"
  shows "(case refreshToken onAuthChange captured resp s of
            (r, s') \<Rightarrow>
              r = False \<and> tokens s' = Null \<and> currentUser s' = Null \<and>
              authChanges s' = authChanges s @ (if onAuthChange then [None] else []) \<and>
              requests s' = requests s @ [PostRefresh (refresh tk)] \<and>
              timers s' = timers s \<and> refreshTimerRef s' = refreshTimerRef s \<and>
              lastHandle s' = lastHandle s \<and>
              tokensEffect getTime now (tokens s') s' = (False, s'))"
  using assms by auto

theorem refresh_failure_is_terminal_witness:
  "refresh sampleTokens \<noteq> [] \<and>
   (case refreshToken True (Val sampleTokens) (NotOk ''expired'') authenticatedSession of
      (r, s') \<Rightarrow>
        r = False \<and> tokens s' = Null \<and> currentUser s' = Null \<and>
        authChanges s' = [None] \<and> timers s' = [] \<and>
        tokensEffect (\<lambda>x. Some 0) 0 (tokens s') s' = (False, s'))"
  using refresh_failure_is_terminal
    [where captured = "Val sampleTokens" and tk = sampleTokens and resp = "NotOk ''expired''"
       and m = "''expired''" and onAuthChange = True and s = authenticatedSession
       and getTime = "\<lambda>x. Some 0" and now = 0]
  by (simp add: sampleTokens_def authenticatedSession_def initialSession_def split: prod.splits)

section \<open>The refresh scheduler\<close>

text \<open>
  Claim C7. For a token pair whose refresh deadline (expiry minus the threshold) lies
  more than 2147483647 ms after now, the tokens effect only cancels the timer of the
  ref: it starts no refresh, calls \<^verbatim>\<open>setTimeout\<close> not at all (the handle counter stands
  still and no timeout is added) and sends no request. Nothing is left that would look
  at the deadline again before the effect runs anew.
\<close>

theorem far_future_not_scheduled:
  assumes "getTime (accessExpiresAt tk) = Some expiresAt"
    and "MAX_TIMEOUT < (expiresAt - REFRESH_THRESHOLD_MS) - now"
  shows "tokensEffect getTime now (Val tk) s = (False, clearRefreshTimer s) \<and>
         set (timers (clearRefreshTimer s)) \<subseteq> set (timers s) \<and>
         lastHandle (clearRefreshTimer s) = lastHandle s \<and>
         requests (clearRefreshTimer s) = requests s"
  using assms clearRefreshTimer_timers_subset [of s]
  by (simp add: MAX_TIMEOUT_def REFRESH_THRESHOLD_MS_def Let_def)

theorem far_future_not_scheduled_witness:
  "MAX_TIMEOUT < (4862890472000 - REFRESH_THRESHOLD_MS) - 1709290472000 \<and>
   tokensEffect (\<lambda>x. Some 4862890472000) 1709290472000 (Val sampleTokens) initialSession
     = (False, initialSession)"
  using far_future_not_scheduled
    [where getTime = "\<lambda>x. Some 4862890472000" and tk = sampleTokens
       and expiresAt = 4862890472000 and now = 1709290472000 and s = initialSession]
  by (simp add: MAX_TIMEOUT_def REFRESH_THRESHOLD_MS_def clearRefreshTimer_def initialSession_def)

text \<open>
  Claim C8. For a token pair whose \<^verbatim>\<open>accessExpiresAt\<close> does not parse to a time, the
  tokens effect only cancels the timer of the ref: no refresh is started, no timeout is
  armed, no request is sent.
\<close>

theorem unparseable_expiry_no_deadline:
  assumes "getTime (accessExpiresAt tk) = None"
  shows "tokensEffect getTime now (Val tk) s = (False, clearRefreshTimer s) \<and>
         set (timers (clearRefreshTimer s)) \<subseteq> set (timers s) \<and>
         lastHandle (clearRefreshTimer s) = lastHandle s \<and>
         requests (clearRefreshTimer s) = requests s"
  using assms clearRefreshTimer_timers_subset [of s]
  by (simp add: Let_def)

theorem unparseable_expiry_no_deadline_witness:
  "tokensEffect (\<lambda>x. None) 1709290472000 (Val (sampleTokens\<lparr>accessExpiresAt := ''soon''\<rparr>))
      initialSession
     = (False, initialSession)"
  using unparseable_expiry_no_deadline
    [where getTime = "\<lambda>x. None" and tk = "sampleTokens\<lparr>accessExpiresAt := ''soon''\<rparr>"
       and now = 1709290472000 and s = initialSession]
  by (simp add: clearRefreshTimer_def initialSession_def)

subsection \<open>The timer discipline along a history\<close>

lemma timerInv_initialSession: "timerInv initialSession"
  by (simp add: timerInv_def initialSession_def)

lemma timerInv_cong:
  "timers s' = timers s \<Longrightarrow> refreshTimerRef s' = refreshTimerRef s \<Longrightarrow> timerInv s \<Longrightarrow> timerInv s'"
  by (auto simp: timerInv_def split: list.splits)

lemma refreshToken_timers [simp]:
  "timers (snd (refreshToken ob c resp s)) = timers s"
  "refreshTimerRef (snd (refreshToken ob c resp s)) = refreshTimerRef s"
  by (cases c; cases resp; simp add: Let_def)+

lemma login_timers [simp]:
  "timers (snd (login ob cu creds lr ur s)) = timers s"
  "refreshTimerRef (snd (login ob cu creds lr ur s)) = refreshTimerRef s"
  by (cases lr; cases "userDataOf ur"; simp add: Let_def loadUserInfo_def)+

lemma logout_timers [simp]:
  "timers (snd (logout ob cu s)) = timers s"
  "refreshTimerRef (snd (logout ob cu s)) = refreshTimerRef s"
  by simp_all

lemma loadInitialTokens_begin_timers [simp]:
  "timers (snd (loadInitialTokens_begin i s)) = timers s"
  "refreshTimerRef (snd (loadInitialTokens_begin i s)) = refreshTimerRef s"
  by (cases "(i, s)" rule: loadInitialTokens_begin.cases; simp)+

lemma loadInitialTokens_resume_timers [simp]:
  "timers (loadInitialTokens_resume resp s) = timers s"
  "refreshTimerRef (loadInitialTokens_resume resp s) = refreshTimerRef s"
  by (simp_all split: option.splits)

lemma scheduleTokenRefresh_armed:
  assumes "timerInv s" and "getTime (accessExpiresAt tk) = Some expiresAt"
    and "accessExpiresAt tk \<noteq> []" and "0 < expiresAt - now" and "expiresAt - now < MAX_TIMEOUT"
  shows "scheduleTokenRefresh getTime now (Val tk) s =
           (False, (clearRefreshTimer s)
              \<lparr>timers := [(Suc (lastHandle s), max 0 (expiresAt - now - REFRESH_THRESHOLD_MS))],
               lastHandle := Suc (lastHandle s),
               refreshTimerRef := Some (Suc (lastHandle s))\<rparr>)"
  using assms clearRefreshTimer_inv [of s]
  by (simp add: Let_def setTimeout_def)

lemma scheduleTokenRefresh_timerInv:
  assumes "timerInv s"
  shows "timerInv (snd (scheduleTokenRefresh getTime now tk s))"
proof (cases tk)
  case (Val t)
  have e: "timers (clearRefreshTimer s) = []"
    using assms by (rule clearRefreshTimer_inv)
  then have c: "timerInv (clearRefreshTimer s)"
    by (simp add: timerInv_def)
  show ?thesis
    using Val e c
    by (auto simp: Let_def setTimeout_def timerInv_def split: option.splits)
next
  case Null
  then show ?thesis using clearRefreshTimer_inv [OF assms] by (simp add: timerInv_def)
next
  case Undefined
  then show ?thesis using clearRefreshTimer_inv [OF assms] by (simp add: timerInv_def)
qed

lemma tokensEffect_timerInv: "timerInv s \<Longrightarrow> timerInv (snd (tokensEffect getTime now tk s))"
  by (cases tk) (simp_all add: scheduleTokenRefresh_timerInv del: scheduleTokenRefresh.simps)

lemma timerFires_timerInv: "timerInv s \<Longrightarrow> timerInv (timerFires h s)"
  by (auto simp: timerInv_def timerFires_def split: list.splits)

lemma unmount_timerInv: "timerInv s \<Longrightarrow> timerInv (unmount s)"
  by (auto simp: timerInv_def unmount_def clearTimeout_def split: list.splits option.splits)

lemma step_timerInv: "timerInv s \<Longrightarrow> timerInv (step ob getTime e s)"
proof (cases e)
  case (EffectRuns now tk)
  assume "timerInv s"
  then show ?thesis using EffectRuns by (simp add: tokensEffect_timerInv)
next
  case (TimerFired h)
  assume "timerInv s"
  then show ?thesis using TimerFired by (simp add: timerFires_timerInv)
next
  case Unmounted
  assume "timerInv s"
  then show ?thesis using Unmounted by (simp add: unmount_timerInv)
qed (auto intro: timerInv_cong simp: authContextValue_def simp del: login.simps logout.simps refreshToken.simps loadInitialTokens_resume.simps)

lemma run_timerInv: "timerInv s \<Longrightarrow> timerInv (run ob getTime es s)"
  by (induction es arbitrary: s) (simp_all add: step_timerInv)

lemma timerInv_at_most_one: "timerInv s \<Longrightarrow> length (timers s) \<le> 1"
  by (auto simp: timerInv_def split: list.splits)

text \<open>
  Claim C5, as amended. In any state a history of the provider can reach, for a token
  pair whose \<^verbatim>\<open>accessExpiresAt\<close> parses to a time: when the expiry is in the future and
  less than 2147483647 ms away, the tokens effect starts no refresh and leaves exactly
  one pending timeout, the new one, with delay \<open>max 0 (refreshAt - now)\<close> for
  \<open>refreshAt = expiresAt - REFRESH_THRESHOLD_MS\<close> (so a deadline that has passed while
  the expiry has not is served by a timeout of delay 0); when the expiry itself has
  passed, the refresh is started on the spot and no timeout is left pending; and at most
  one timeout is pending in every reachable state.
\<close>

theorem scheduler_arms_one_timer:
  assumes "getTime (accessExpiresAt tk) = Some expiresAt" and "accessExpiresAt tk \<noteq> []"
    and "s = run onAuthChange getTime history initialSession"
  shows "(0 < expiresAt - now \<and> expiresAt - now < MAX_TIMEOUT \<longrightarrow>
            (case tokensEffect getTime now (Val tk) s of
               (refreshedNow, s') \<Rightarrow>
                 refreshedNow = False \<and>
                 timers s' = [(Suc (lastHandle s), max 0 ((expiresAt - REFRESH_THRESHOLD_MS) - now))] \<and>
                 refreshTimerRef s' = Some (Suc (lastHandle s)))) \<and>
         (expiresAt \<le> now \<longrightarrow>
            tokensEffect getTime now (Val tk) s = (True, clearRefreshTimer s) \<and>
            timers (clearRefreshTimer s) = []) \<and>
         length (timers s) \<le> 1"
proof -
  have inv: "timerInv s"
    using assms(3) timerInv_initialSession by (simp add: run_timerInv)
  have a: "0 < expiresAt - now \<and> expiresAt - now < MAX_TIMEOUT \<longrightarrow>
            (case tokensEffect getTime now (Val tk) s of
               (refreshedNow, s') \<Rightarrow>
                 refreshedNow = False \<and>
                 timers s' = [(Suc (lastHandle s), max 0 ((expiresAt - REFRESH_THRESHOLD_MS) - now))] \<and>
                 refreshTimerRef s' = Some (Suc (lastHandle s)))"
  proof
    assume h: "0 < expiresAt - now \<and> expiresAt - now < MAX_TIMEOUT"
    have m: "expiresAt - now - REFRESH_THRESHOLD_MS = expiresAt - REFRESH_THRESHOLD_MS - now"
      by simp
    show "case tokensEffect getTime now (Val tk) s of
               (refreshedNow, s') \<Rightarrow>
                 refreshedNow = False \<and>
                 timers s' = [(Suc (lastHandle s), max 0 ((expiresAt - REFRESH_THRESHOLD_MS) - now))] \<and>
                 refreshTimerRef s' = Some (Suc (lastHandle s))"
      using scheduleTokenRefresh_armed
              [where s = s and getTime = getTime and tk = tk and expiresAt = expiresAt and now = now]
            inv assms(1) assms(2) h m
      by (simp del: scheduleTokenRefresh.simps)
  qed
  have b: "expiresAt \<le> now \<longrightarrow>
            tokensEffect getTime now (Val tk) s = (True, clearRefreshTimer s) \<and>
            timers (clearRefreshTimer s) = []"
    using assms(1) assms(2) clearRefreshTimer_inv [OF inv] by (simp add: Let_def)
  show ?thesis using a b timerInv_at_most_one [OF inv] by blast
qed

theorem scheduler_arms_one_timer_witness:
  "(case tokensEffect (\<lambda>x. Some 600000) 100000 (Val sampleTokens)
           (run True (\<lambda>x. Some 600000) [EffectRuns 0 (Val sampleTokens)] initialSession) of
      (refreshedNow, s') \<Rightarrow>
        refreshedNow = False \<and> timers s' = [(2, 200000)] \<and> refreshTimerRef s' = Some 2) \<and>
   fst (tokensEffect (\<lambda>x. Some 600000) 600000 (Val sampleTokens)
           (run True (\<lambda>x. Some 600000) [EffectRuns 0 (Val sampleTokens)] initialSession)) = True \<and>
   length (timers (run True (\<lambda>x. Some 600000) [EffectRuns 0 (Val sampleTokens)] initialSession)) \<le> 1"
proof -
  have p: "(\<lambda>x::string. Some (600000::int)) (accessExpiresAt sampleTokens) = Some 600000"
    by simp
  have q: "accessExpiresAt sampleTokens \<noteq> []"
    by (simp add: sampleTokens_def)
  have l: "lastHandle (run True (\<lambda>x. Some 600000) [EffectRuns 0 (Val sampleTokens)] initialSession) = 1"
    by (simp add: sampleTokens_def initialSession_def clearRefreshTimer_def setTimeout_def
        MAX_TIMEOUT_def REFRESH_THRESHOLD_MS_def Let_def)
  show ?thesis
    using scheduler_arms_one_timer
        [where getTime = "\<lambda>x. Some 600000" and tk = sampleTokens and expiresAt = 600000
           and onAuthChange = True and history = "[EffectRuns 0 (Val sampleTokens)]"
           and now = 100000, OF p q refl]
      scheduler_arms_one_timer
        [where getTime = "\<lambda>x. Some 600000" and tk = sampleTokens and expiresAt = 600000
           and onAuthChange = True and history = "[EffectRuns 0 (Val sampleTokens)]"
           and now = 600000, OF p q refl]
      l
    by (simp add: MAX_TIMEOUT_def REFRESH_THRESHOLD_MS_def split: prod.splits del: tokensEffect.simps run.simps)
qed

text \<open>
  Claim C5 as stated fails for a deadline that has passed while the expiry has not: with
  the expiry 1000 ms ahead, \<open>refreshAt \<le> now\<close>, yet the refresh is not started by the
  scheduler; a timeout of delay 0 is armed and held in the ref.
\<close>

theorem deadline_passed_not_immediate_counterexample:
  "(1000::int) - REFRESH_THRESHOLD_MS \<le> 0 \<and>
   tokensEffect (\<lambda>x. Some 1000) 0 (Val sampleTokens) initialSession
     = (False, initialSession\<lparr>timers := [(1, 0)], lastHandle := 1, refreshTimerRef := Some 1\<rparr>)"
  by (simp add: sampleTokens_def initialSession_def clearRefreshTimer_def setTimeout_def
        MAX_TIMEOUT_def REFRESH_THRESHOLD_MS_def Let_def)

section \<open>Calls of the change observer\<close>

lemma login_identity_failure_silent:
  "userDataOf userResponse = None \<Longrightarrow>
   authChanges (snd (login ob cu creds loginResponse userResponse s)) = authChanges s"
  by (cases loginResponse) (simp_all add: Let_def loadUserInfo_def)

lemma loadInitialTokens_begin_silent:
  "authChanges (snd (loadInitialTokens_begin i s)) = authChanges s"
  by (cases "(i, s)" rule: loadInitialTokens_begin.cases) simp_all

lemma loadInitialTokens_resume_silent:
  "authChanges (loadInitialTokens_resume resp s) = authChanges s"
  by (simp split: option.splits)

lemma loadInitialTokens_silent:
  "authChanges (loadInitialTokens i resp s) = authChanges s"
proof (cases "loadInitialTokens_begin i s")
  case (Pair p s1)
  then have "authChanges s1 = authChanges s"
    using loadInitialTokens_begin_silent [of i s] by simp
  then show ?thesis
    using Pair loadInitialTokens_resume_silent [of resp s1]
    by (cases p) (simp_all add: loadInitialTokens_def del: loadInitialTokens_resume.simps)
qed

text \<open>
  Claim C4, as amended. The registered observer is called exactly once by a successful
  \<^verbatim>\<open>login\<close> (with the new pair), by a \<^verbatim>\<open>logout\<close> that passes its guard (with \<^verbatim>\<open>null\<close>),
  by a successful refresh (with the new pair) and by a failed refresh (with \<^verbatim>\<open>null\<close>).
  It is not called when the identity fetch fails, whether in \<^verbatim>\<open>login\<close> or in the initial
  load, and the initial load never calls it.
\<close>

theorem observer_calls:
  "(currentUser s = Null \<and> userDataOf userResponse = Some u \<longrightarrow>
      (case auth_login (authContextValue onAuthChange s) creds (Ok d) userResponse s of
         (r, s') \<Rightarrow>
           r = Inr () \<and> tokens s' = Val (tokensOfResponse d) \<and> currentUser s' = Val u \<and>
           authChanges s' =
             authChanges s @ (if onAuthChange then [Some (tokensOfResponse d)] else []))) \<and>
   (currentUser s \<noteq> Null \<longrightarrow>
      authChanges (snd (auth_logout (authContextValue onAuthChange s) s)) =
        authChanges s @ (if onAuthChange then [None] else [])) \<and>
   (holdsRefresh captured \<longrightarrow>
      authChanges (snd (refreshToken onAuthChange captured (Ok d) s)) =
        authChanges s @ (if onAuthChange then [Some (tokensOfResponse d)] else []) \<and>
      authChanges (snd (refreshToken onAuthChange captured (NotOk m) s)) =
        authChanges s @ (if onAuthChange then [None] else []) \<and>
      authChanges (snd (refreshToken onAuthChange captured (Thrown m) s)) =
        authChanges s @ (if onAuthChange then [None] else [])) \<and>
   (userDataOf userResponse = None \<longrightarrow>
      authChanges (snd (auth_login (authContextValue onAuthChange s) creds loginResponse
                          userResponse s)) = authChanges s) \<and>
   authChanges (snd (loadInitialTokens_begin initialTokens s)) = authChanges s \<and>
   authChanges (loadInitialTokens initialTokens userResponse s) = authChanges s"
proof -
  have a: "currentUser s = Null \<and> userDataOf userResponse = Some u \<longrightarrow>
      (case auth_login (authContextValue onAuthChange s) creds (Ok d) userResponse s of
         (r, s') \<Rightarrow>
           r = Inr () \<and> tokens s' = Val (tokensOfResponse d) \<and> currentUser s' = Val u \<and>
           authChanges s' =
             authChanges s @ (if onAuthChange then [Some (tokensOfResponse d)] else []))"
    by (simp add: authContextValue_def Let_def loadUserInfo_def)
  have b: "currentUser s \<noteq> Null \<longrightarrow>
      authChanges (snd (auth_logout (authContextValue onAuthChange s) s)) =
        authChanges s @ (if onAuthChange then [None] else [])"
    by (simp add: authContextValue_def)
  have c: "holdsRefresh captured \<longrightarrow>
      authChanges (snd (refreshToken onAuthChange captured (Ok d) s)) =
        authChanges s @ (if onAuthChange then [Some (tokensOfResponse d)] else []) \<and>
      authChanges (snd (refreshToken onAuthChange captured (NotOk m) s)) =
        authChanges s @ (if onAuthChange then [None] else []) \<and>
      authChanges (snd (refreshToken onAuthChange captured (Thrown m) s)) =
        authChanges s @ (if onAuthChange then [None] else [])"
    by (cases captured) (simp_all add: Let_def)
  have e: "userDataOf userResponse = None \<longrightarrow>
      authChanges (snd (auth_login (authContextValue onAuthChange s) creds loginResponse
                          userResponse s)) = authChanges s"
    using login_identity_failure_silent [of userResponse onAuthChange "currentUser s" creds loginResponse s]
    by (simp add: authContextValue_def del: login.simps)
  show ?thesis
    using a b c e loadInitialTokens_begin_silent [of initialTokens s]
      loadInitialTokens_silent [of initialTokens userResponse s]
    by blast
qed

theorem observer_calls_witness:
  "currentUser (clearAuthState initialSession) = Null \<and>
   userDataOf (Ok sampleUserInfo) = Some sampleUser \<and>
   authChanges (snd (auth_login (authContextValue True (clearAuthState initialSession))
       sampleCredentials (Ok sampleAuthData) (Ok sampleUserInfo) (clearAuthState initialSession)))
     = [Some (tokensOfResponse sampleAuthData)] \<and>
   currentUser authenticatedSession \<noteq> Null \<and>
   authChanges (snd (auth_logout (authContextValue True authenticatedSession) authenticatedSession))
     = [None] \<and>
   holdsRefresh (Val sampleTokens) \<and>
   authChanges (snd (refreshToken True (Val sampleTokens) (Ok sampleAuthData) authenticatedSession))
     = [Some (tokensOfResponse sampleAuthData)] \<and>
   authChanges (snd (refreshToken True (Val sampleTokens) (NotOk ''expired'') authenticatedSession))
     = [None] \<and>
   userDataOf (NotOk ''Unauthorized'') = None \<and>
   authChanges (snd (auth_login (authContextValue True authenticatedSession)
       sampleCredentials (Ok sampleAuthData) (NotOk ''Unauthorized'') authenticatedSession))
     = []"
proof -
  have i: "authChanges (clearAuthState initialSession) = []" "authChanges authenticatedSession = []"
    by (simp_all add: initialSession_def authenticatedSession_def)
  have u: "userDataOf (Ok sampleUserInfo) = Some sampleUser"
    "userDataOf (NotOk ''Unauthorized'') = None"
    by (simp_all add: sampleUserInfo_def sampleUser_def)
  have h: "holdsRefresh (Val sampleTokens)" "currentUser authenticatedSession \<noteq> Null"
    "currentUser (clearAuthState initialSession) = Null"
    by (simp_all add: sampleTokens_def authenticatedSession_def)
  have w1: "authChanges (snd (auth_login (authContextValue True (clearAuthState initialSession))
       sampleCredentials (Ok sampleAuthData) (Ok sampleUserInfo) (clearAuthState initialSession)))
     = [Some (tokensOfResponse sampleAuthData)]"
    using observer_calls
        [where s = "clearAuthState initialSession" and userResponse = "Ok sampleUserInfo"
           and u = sampleUser and onAuthChange = True and creds = sampleCredentials
           and d = sampleAuthData and captured = Null and m = "[]"
           and loginResponse = "Ok sampleAuthData" and initialTokens = Absent]
      i(1) u(1) h(3)
    by (simp add: case_prod_beta del: login.simps logout.simps userDataOf.simps)
  have w2: "authChanges (snd (auth_logout (authContextValue True authenticatedSession) authenticatedSession))
     = [None] \<and>
   authChanges (snd (refreshToken True (Val sampleTokens) (Ok sampleAuthData) authenticatedSession))
     = [Some (tokensOfResponse sampleAuthData)] \<and>
   authChanges (snd (refreshToken True (Val sampleTokens) (NotOk ''expired'') authenticatedSession))
     = [None] \<and>
   authChanges (snd (auth_login (authContextValue True authenticatedSession)
       sampleCredentials (Ok sampleAuthData) (NotOk ''Unauthorized'') authenticatedSession))
     = []"
    using observer_calls
        [where s = authenticatedSession and userResponse = "NotOk ''Unauthorized''"
           and u = sampleUser and onAuthChange = True and creds = sampleCredentials
           and d = sampleAuthData and captured = "Val sampleTokens" and m = "''expired''"
           and loginResponse = "Ok sampleAuthData" and initialTokens = Absent]
      i(2) u(2) h(1) h(2)
    by (simp add: case_prod_beta
          del: login.simps logout.simps refreshToken.simps holdsRefresh.simps userDataOf.simps)
  show ?thesis using w1 w2 u h by blast
qed

text \<open>
  Claim C4 as stated fails: a \<^verbatim>\<open>login\<close> whose identity fetch is answered 401 raises
  "Error fetching user info" and the observer is not called; the initial load with such
  an answer ends unauthenticated, again without a call; and \<^verbatim>\<open>logout\<close> called in the
  unresolved state does call the observer.
\<close>

theorem identity_failure_silent_counterexample:
  "fst (auth_login (authContextValue True (clearAuthState initialSession))
       sampleCredentials (Ok sampleAuthData) (NotOk ''Unauthorized'') (clearAuthState initialSession))
     = Inl (Error ''Error fetching user info'') \<and>
   authChanges (snd (auth_login (authContextValue True (clearAuthState initialSession))
       sampleCredentials (Ok sampleAuthData) (NotOk ''Unauthorized'') (clearAuthState initialSession)))
     = [] \<and>
   tokens (loadInitialTokens (Resolves (Some sampleTokens)) (NotOk ''Unauthorized'') initialSession)
     = Null \<and>
   authChanges (loadInitialTokens (Resolves (Some sampleTokens)) (NotOk ''Unauthorized'') initialSession)
     = [] \<and>
   tokens initialSession = Undefined \<and> currentUser initialSession = Undefined \<and>
   authChanges (step True (\<lambda>x. None) LogoutCalled initialSession) = [None]"
  by (simp add: authContextValue_def initialSession_def loadInitialTokens_def Let_def
        loadUserInfo_def)

section \<open>The exposed pair during the initial load\<close>

text \<open>
  Claim C1 does not hold of the code. Mounted with a token pair, the provider sets the
  tokens (line 196) before it awaits the identity request (line 198): until that request
  is answered the exposed state pairs the tokens with an \<^verbatim>\<open>undefined\<close> user, which is
  none of the three shapes of the specification. (\<^verbatim>\<open>login\<close> fetches the identity first
  and sets both together.)
\<close>

theorem initial_load_exposes_tokens_without_user:
  "(case loadInitialTokens_begin (Resolves (Some sampleTokens)) initialSession of
      (pending, s') \<Rightarrow>
        pending = Some sampleTokens \<and>
        tokens s' = Val sampleTokens \<and> currentUser s' = Undefined \<and>
        requests s' = [GetUsersMe (access sampleTokens)] \<and>
        \<not> consistent (tokens s') (currentUser s'))"
  by (simp add: initialSession_def)

text \<open>Once settled, the initial load and \<^verbatim>\<open>login\<close> do leave one of the named shapes.\<close>

lemma loadInitialTokens_settles_consistent:
  "consistent (tokens (loadInitialTokens i resp initialSession))
              (currentUser (loadInitialTokens i resp initialSession)) \<and>
   tokens (loadInitialTokens i resp initialSession) \<noteq> Undefined"
  by (cases "(i, initialSession)" rule: loadInitialTokens_begin.cases)
     (auto simp: loadInitialTokens_def split: option.splits)

lemma login_settles_consistent:
  "consistent (tokens (snd (login ob cu creds lr ur s))) (currentUser (snd (login ob cu creds lr ur s)))"
  by (cases lr; cases "userDataOf ur"; simp add: Let_def loadUserInfo_def)

end
